theory Spec2Isabelle
  imports Main
begin

section \<open>Values, interned keys and the class-level registry\<close>

text \<open>
  The module \<^verbatim>\<open>obspy/core/event/resourceid.py\<close> keeps all of its state in class
  attributes: the interner \<^verbatim>\<open>_ResourceKey._singleton_cache\<close> and the three tables
  \<^verbatim>\<open>_parent_id_tree\<close>, \<^verbatim>\<open>_id_order\<close>, \<^verbatim>\<open>_id_object_map\<close> of
  \<^verbatim>\<open>ResourceIdentifier\<close>. The embedding threads them through every method as one
  record. A Python value handed to the module is one of the shapes the code tells apart
  with \<^verbatim>\<open>is None\<close> and \<^verbatim>\<open>isinstance(value, (int, str))\<close>; every other object
  is known to the module only through \<^verbatim>\<open>id(value)\<close>.
\<close>

datatype pyval = VNone | VStr string | VInt int | VObj nat

text \<open>The raw values the interner is keyed on (a string, an integer, or \<^verbatim>\<open>None\<close>).\<close>

datatype raw = RawNone | RawStr string | RawInt int

text \<open>
  A \<^verbatim>\<open>_ResourceKey\<close> instance carries no data; it is its identity. \<open>key\<close> is that
  identity, which is also what \<^verbatim>\<open>id(key)\<close> returns.
\<close>

type_synonym key = nat

text \<open>
  A referred object: its identity \<^verbatim>\<open>id(obj)\<close> and the data its own \<^verbatim>\<open>__ne__\<close>
  compares. An object that inherits the identity comparison of \<^verbatim>\<open>object\<close> is one
  whose \<open>obj_val\<close> no other object shares.
\<close>

record pyobject =
  obj_id :: nat
  obj_val :: int

definition py_ne :: "pyobject \<Rightarrow> pyobject \<Rightarrow> bool" where
  "py_ne a b = (obj_val a \<noteq> obj_val b)"

text \<open>The pair \<^verbatim>\<open>(self._object_id, self.id)\<close> returned by \<^verbatim>\<open>_object_key\<close>.\<close>

type_synonym object_key = "nat option \<times> string option"

text \<open>
  \<^verbatim>\<open>warnings.warn(msg, UserWarning)\<close> is recorded in a log, oldest first. The three
  messages of the module are told apart by constructor.
\<close>

datatype warning =
    RebindingConflict "string option"
  | LivenessLost nat "string option"
  | IdOverwritten

datatype error = TypeError | ValueError

record rstate =
  singleton_cache :: "raw \<rightharpoonup> key"
  next_key :: nat
  parent_id_tree :: "key \<rightharpoonup> (key \<rightharpoonup> object_key)"
  id_order :: "key \<rightharpoonup> object_key list"
  id_object_map :: "object_key \<rightharpoonup> pyobject"
  warnings_log :: "warning list"

text \<open>
  \<open>next_key\<close> is the identity the next \<^verbatim>\<open>_ResourceKey()\<close> receives. Keys and
  referred objects share the address space of \<^verbatim>\<open>id()\<close>; the sample inputs below give
  their objects identities from 100 on, which none of their keys reaches. The state of
  a fresh interpreter:
\<close>

definition empty_state :: rstate where
  "empty_state =
     \<lparr>singleton_cache = Map.empty, next_key = 0, parent_id_tree = Map.empty,
      id_order = Map.empty, id_object_map = Map.empty, warnings_log = []\<rparr>"

definition warn :: "warning \<Rightarrow> rstate \<Rightarrow> rstate" where
  "warn w st = st\<lparr>warnings_log := warnings_log st @ [w]\<rparr>"

text \<open>
  The tables hold their objects and keys weakly. The collector is an event of the
  environment: when the last strong reference to an object is dropped, every row of the
  \<^verbatim>\<open>WeakValueDictionary\<close> that holds it disappears (\<open>gc_object\<close>). Only the
  instance dictionary of a handle holds a \<^verbatim>\<open>_ResourceKey\<close> strongly: when the last
  handle that holds a key is dropped, the key's row of the interner, its row of
  \<^verbatim>\<open>_id_order\<close>, and its rows of \<^verbatim>\<open>_parent_id_tree\<close>, as parent and as resource
  key, disappear (\<open>gc_key\<close>).
\<close>

definition gc_object :: "nat \<Rightarrow> rstate \<Rightarrow> rstate" where
  "gc_object a st =
     st\<lparr>id_object_map :=
          (\<lambda>ck. case id_object_map st ck of
                   None \<Rightarrow> None
                 | Some ob \<Rightarrow> if obj_id ob = a then None else Some ob)\<rparr>"

definition gc_key :: "key \<Rightarrow> rstate \<Rightarrow> rstate" where
  "gc_key k st =
     st\<lparr>singleton_cache :=
          (\<lambda>r. if singleton_cache st r = Some k then None else singleton_cache st r),
        id_order := (id_order st)(k := None),
        parent_id_tree :=
          (\<lambda>p. if p = k then None
                else (case parent_id_tree st p of
                        None \<Rightarrow> None
                      | Some row \<Rightarrow> Some (row(k := None))))\<rparr>"

subsection \<open>\<^verbatim>\<open>_ResourceKey.get_resource_key\<close>\<close>

definition get_resource_key :: "raw \<Rightarrow> rstate \<Rightarrow> key \<times> rstate" where
  "get_resource_key unique_id st =
     (case singleton_cache st unique_id of
        Some single \<Rightarrow> (single, st)
      | None \<Rightarrow>
          (next_key st,
           st\<lparr>singleton_cache := (singleton_cache st)(unique_id \<mapsto> next_key st),
              next_key := Suc (next_key st)\<rparr>))"

subsection \<open>\<^verbatim>\<open>_ResourceKeyDescriptor.__set__\<close>\<close>

text \<open>
  \<^verbatim>\<open>
  def __set__(self, instance, value):
      if value is not None:
          if not isinstance(value, (int, str)):
              value = id(value)
          setattr(instance, self.name, _ResourceKey.get_resource_key(value))
  \<close>
  The result is the key now to be stored in the attribute, or \<open>None\<close> when the
  assignment leaves the attribute as it was.
\<close>

definition descriptor_set :: "pyval \<Rightarrow> rstate \<Rightarrow> key option \<times> rstate" where
  "descriptor_set v st =
     (case v of
        VNone \<Rightarrow> (None, st)
      | VStr s \<Rightarrow> (let (k, st') = get_resource_key (RawStr s) st in (Some k, st'))
      | VInt i \<Rightarrow> (let (k, st') = get_resource_key (RawInt i) st in (Some k, st'))
      | VObj a \<Rightarrow> (let (k, st') = get_resource_key (RawInt (int a)) st in (Some k, st')))"

section \<open>The handle\<close>

text \<open>
  The instance dictionary of a \<^verbatim>\<open>ResourceIdentifier\<close>. \<open>id_str\<close> is the entry
  \<^verbatim>\<open>__dict__["id"]\<close>, \<open>resource_key\<close> and \<open>parent_key\<close> are the entries
  \<^verbatim>\<open>_resource_key__\<close> and \<^verbatim>\<open>_parent_key__\<close> written by the descriptors (the
  parent's default is \<^verbatim>\<open>None\<close>). Every handle that \<^verbatim>\<open>__init__\<close>,
  \<^verbatim>\<open>__deepcopy__\<close> or \<^verbatim>\<open>__setstate__\<close> returns has a resource key, so that field
  is not optional. \<open>prefix_str\<close> and \<open>uuid_str\<close> are read only when \<open>fixed\<close> is false.
\<close>

record handle =
  fixed :: bool
  prefix_str :: string
  uuid_str :: string
  id_str :: "string option"
  resource_key :: key
  parent_key :: "key option"
  object_id :: "nat option"

text \<open>
  \<^verbatim>\<open>
  @property
  def id(self):
      if self.fixed:
          return self.__dict__.get("id")
      else:
          id = self.prefix
          if not id.endswith("/"):
              id += "/"
          id += self.uuid
          return id
  \<close>
\<close>

definition endswith_slash :: "string \<Rightarrow> bool" where
  "endswith_slash s = (s \<noteq> [] \<and> last s = CHR ''/'')"

definition get_id :: "handle \<Rightarrow> string option" where
  "get_id h =
     (if fixed h then id_str h
      else Some ((if endswith_slash (prefix_str h) then prefix_str h
                  else prefix_str h @ ''/'') @ uuid_str h))"

definition object_key :: "handle \<Rightarrow> object_key" where
  "object_key h = (object_id h, get_id h)"

text \<open>
  The setter of \<^verbatim>\<open>id\<close> on a finished handle (one that has \<^verbatim>\<open>_resource_key__\<close>).
  It raises after \<^verbatim>\<open>self.fixed = True\<close>; the handle returned beside the error is the
  handle as the raise leaves it.
  \<^verbatim>\<open>
  @id.setter
  def id(self, value):
      self.fixed = True
      if not isinstance(value, str):
          raise TypeError(msg)
      if '_resource_key__' in self.__dict__:
          warnings.warn(msg, UserWarning)
      self.__dict__["id"] = value
  \<close>
\<close>

definition id_setter :: "handle \<Rightarrow> pyval \<Rightarrow> rstate \<Rightarrow> error option \<times> handle \<times> rstate" where
  "id_setter h v st =
     (let h1 = h\<lparr>fixed := True\<rparr> in
      case v of
        VStr s \<Rightarrow> (None, h1\<lparr>id_str := Some s\<rparr>, warn IdOverwritten st)
      | _ \<Rightarrow> (Some TypeError, h1, st))"

section \<open>Binding\<close>

text \<open>
  \<^verbatim>\<open>
  def set_referred_object(self, referred_object, warn=True, parent=None):
      id_order = ResourceIdentifier._id_order
      old = ResourceIdentifier._id_object_map.get(self._object_key, None)
      if old is None:
          try:
              old_obj_id_key = id_order[self._resource_key][-1]
              old = ResourceIdentifier._id_object_map[old_obj_id_key]
          except (KeyError, IndexError):
              pass
      if warn and old is not None and old != referred_object:
          warnings.warn(msg, UserWarning)
      self._object_id = id(referred_object)
      if parent is not None or self._parent_key is not None:
          if parent is not None:
              self._parent_key = parent
          id_tree = ResourceIdentifier._parent_id_tree
          if self._parent_key not in id_tree:
              id_tree[self._parent_key] = WeakKeyDictionary()
          id_tree[self._parent_key][self._resource_key] = self._object_key
      ResourceIdentifier._id_object_map[self._object_key] = referred_object
      if self._resource_key not in id_order:
          id_order[self._resource_key] = []
      id_order[self._resource_key].append(self._object_key)
  \<close>
\<close>

definition last_assigned :: "handle \<Rightarrow> rstate \<Rightarrow> pyobject option" where
  "last_assigned h st =
     (case id_order st (resource_key h) of
        None \<Rightarrow> None
      | Some l \<Rightarrow> (if l = [] then None else id_object_map st (last l)))"

definition old_object :: "handle \<Rightarrow> rstate \<Rightarrow> pyobject option" where
  "old_object h st =
     (case id_object_map st (object_key h) of
        Some ob \<Rightarrow> Some ob
      | None \<Rightarrow> last_assigned h st)"

definition warn_rebinding :: "bool \<Rightarrow> handle \<Rightarrow> pyobject \<Rightarrow> rstate \<Rightarrow> rstate" where
  "warn_rebinding w h referred_object st =
     (case old_object h st of
        None \<Rightarrow> st
      | Some old \<Rightarrow>
          if w \<and> py_ne old referred_object then warn (RebindingConflict (get_id h)) st
          else st)"

definition set_parent_key :: "handle \<Rightarrow> pyval \<Rightarrow> rstate \<Rightarrow> handle \<times> rstate" where
  "set_parent_key h v st =
     (case descriptor_set v st of
        (None, st') \<Rightarrow> (h, st')
      | (Some k, st') \<Rightarrow> (h\<lparr>parent_key := Some k\<rparr>, st'))"

definition set_resource_key :: "handle \<Rightarrow> pyval \<Rightarrow> rstate \<Rightarrow> handle \<times> rstate" where
  "set_resource_key h v st =
     (case descriptor_set v st of
        (None, st') \<Rightarrow> (h, st')
      | (Some k, st') \<Rightarrow> (h\<lparr>resource_key := k\<rparr>, st'))"

text \<open>
  The update of the parent scope tree. It is entered with \<open>parent\<close> given or with a
  parent key on the handle; the descriptor stores a key for every \<open>parent\<close> that is not
  \<^verbatim>\<open>None\<close>, so inside the branch the handle always has a parent key.
\<close>

definition update_parent_tree :: "handle \<Rightarrow> pyval \<Rightarrow> rstate \<Rightarrow> handle \<times> rstate" where
  "update_parent_tree h parent st =
     (if parent = VNone \<and> parent_key h = None then (h, st)
      else
        let (h1, st1) = (if parent = VNone then (h, st) else set_parent_key h parent st) in
        case parent_key h1 of
          None \<Rightarrow> (h1, st1)
        | Some pk \<Rightarrow>
            let row = (case parent_id_tree st1 pk of None \<Rightarrow> Map.empty | Some r \<Rightarrow> r) in
            (h1, st1\<lparr>parent_id_tree :=
                       (parent_id_tree st1)(pk \<mapsto> row(resource_key h1 \<mapsto> object_key h1))\<rparr>))"

definition append_id_order :: "handle \<Rightarrow> rstate \<Rightarrow> rstate" where
  "append_id_order h st =
     (let l = (case id_order st (resource_key h) of None \<Rightarrow> [] | Some l \<Rightarrow> l) in
      st\<lparr>id_order := (id_order st)(resource_key h \<mapsto> l @ [object_key h])\<rparr>)"

definition set_referred_object ::
  "handle \<Rightarrow> pyobject \<Rightarrow> bool \<Rightarrow> pyval \<Rightarrow> rstate \<Rightarrow> handle \<times> rstate" where
  "set_referred_object h referred_object w parent st =
     (let st1 = warn_rebinding w h referred_object st;
          h1 = h\<lparr>object_id := Some (obj_id referred_object)\<rparr>;
          (h2, st2) = update_parent_tree h1 parent st1;
          st3 = st2\<lparr>id_object_map := (id_object_map st2)(object_key h2 \<mapsto> referred_object)\<rparr>
      in (h2, append_id_order h2 st3))"

section \<open>Resolution\<close>

text \<open>
  \<^verbatim>\<open>
  def _get_object_from_parent_scope(self):
      id_tree = ResourceIdentifier._parent_id_tree
      try:
          obj_key = id_tree[self._parent_key][self._resource_key]
      except (KeyError, TypeError):
          pass
      else:
          try:
              obj = ResourceIdentifier._id_object_map[obj_key]
          except KeyError:
              pass
          else:
              if obj_key[-1] == self.id:
                  return obj
  \<close>
  A handle without parent key raises the \<^verbatim>\<open>TypeError\<close> of a weak reference to
  \<^verbatim>\<open>None\<close>, which the first handler catches.
\<close>

definition get_object_from_parent_scope :: "handle \<Rightarrow> rstate \<Rightarrow> pyobject option" where
  "get_object_from_parent_scope h st =
     (case parent_key h of
        None \<Rightarrow> None
      | Some pk \<Rightarrow>
          (case parent_id_tree st pk of
             None \<Rightarrow> None
           | Some row \<Rightarrow>
               (case row (resource_key h) of
                  None \<Rightarrow> None
                | Some obj_key \<Rightarrow>
                    (case id_object_map st obj_key of
                       None \<Rightarrow> None
                     | Some ob \<Rightarrow> if snd obj_key = get_id h then Some ob else None))))"

text \<open>
  The loop of \<^verbatim>\<open>_get_newest_object_with_same_resource_id\<close> over the list
  \<^verbatim>\<open>rid_list\<close>: it reads the last entry, pops it when it is dead or carries another
  id, and returns the first object that survives, with the list as the pops left it.
  \<^verbatim>\<open>
  while len(rid_list):
      obj_key = ResourceIdentifier._id_order[self._resource_key][-1]
      try:
          obj = ResourceIdentifier._id_object_map[obj_key]
      except KeyError:
          rid_list.pop()
          continue
      if obj_key[-1] != self.id:
          rid_list.pop()
          continue
      return obj
  \<close>
\<close>

function newest_scan ::
  "(object_key \<rightharpoonup> pyobject) \<Rightarrow> string option \<Rightarrow> object_key list
     \<Rightarrow> pyobject option \<times> object_key list" where
  "newest_scan m sid rid_list =
     (if rid_list = [] then (None, rid_list)
      else
        (case m (last rid_list) of
           None \<Rightarrow> newest_scan m sid (butlast rid_list)
         | Some ob \<Rightarrow>
             if snd (last rid_list) \<noteq> sid then newest_scan m sid (butlast rid_list)
             else (Some ob, rid_list)))"
  by pat_completeness auto
termination
  by (relation "measure (\<lambda>(m, sid, l). length l)") auto

definition get_newest_object_with_same_resource_id ::
  "handle \<Rightarrow> rstate \<Rightarrow> pyobject option \<times> rstate" where
  "get_newest_object_with_same_resource_id h st =
     (case id_order st (resource_key h) of
        None \<Rightarrow> (None, st)
      | Some rid_list \<Rightarrow>
          (let (r, l') = newest_scan (id_object_map st) (get_id h) rid_list in
           (r, st\<lparr>id_order := (id_order st)(resource_key h \<mapsto> l')\<rparr>)))"

text \<open>
  \<^verbatim>\<open>
  def _get_similar_referred_object(self):
      if self._object_id is not None:
          warnings.warn(msg, UserWarning)
      obj = self._get_object_from_parent_scope()
      if obj is None:
          obj = self._get_newest_object_with_same_resource_id()
      if obj is not None:
          self.set_referred_object(obj, warn=False)
      return obj
  \<close>
\<close>

definition warn_liveness :: "handle \<Rightarrow> rstate \<Rightarrow> rstate" where
  "warn_liveness h st =
     (case object_id h of
        None \<Rightarrow> st
      | Some a \<Rightarrow> warn (LivenessLost a (get_id h)) st)"

definition get_similar_referred_object ::
  "handle \<Rightarrow> rstate \<Rightarrow> pyobject option \<times> handle \<times> rstate" where
  "get_similar_referred_object h st =
     (let st1 = warn_liveness h st;
          (obj, st2) = (case get_object_from_parent_scope h st1 of
                          Some ob \<Rightarrow> (Some ob, st1)
                        | None \<Rightarrow> get_newest_object_with_same_resource_id h st1)
      in case obj of
           None \<Rightarrow> (None, h, st2)
         | Some ob \<Rightarrow> (Some ob, set_referred_object h ob False VNone st2))"

text \<open>
  A hook is any callable that takes the id; it may itself create handles and bind
  objects, so it reads and returns the registry. The list \<^verbatim>\<open>_get_object_hook\<close> is
  passed beside the state.
  \<^verbatim>\<open>
  for hook in self._get_object_hook:
      out = hook(self.id)
      if out is not None:
          self.set_referred_object(out)
          return out
  \<close>
\<close>

type_synonym hook = "string option \<Rightarrow> rstate \<Rightarrow> pyobject option \<times> rstate"

fun iterate_hooks ::
  "hook list \<Rightarrow> handle \<Rightarrow> rstate \<Rightarrow> pyobject option \<times> handle \<times> rstate" where
  "iterate_hooks [] h st = (None, h, st)"
| "iterate_hooks (hk # hks) h st =
     (case hk (get_id h) st of
        (None, st1) \<Rightarrow> iterate_hooks hks h st1
      | (Some out, st1) \<Rightarrow> (Some out, set_referred_object h out True VNone st1))"

text \<open>
  \<^verbatim>\<open>
  def get_referred_object(self):
      try:
          out = ResourceIdentifier._id_object_map[self._object_key]
      except KeyError:
          out = self._get_similar_referred_object()
      if out is not None:
          return out
      else:
          for hook in self._get_object_hook: ...
  \<close>
\<close>

definition get_referred_object ::
  "hook list \<Rightarrow> handle \<Rightarrow> rstate \<Rightarrow> pyobject option \<times> handle \<times> rstate" where
  "get_referred_object hooks h st =
     (case id_object_map st (object_key h) of
        Some out \<Rightarrow> (Some out, h, st)
      | None \<Rightarrow>
          (case get_similar_referred_object h st of
             (Some out, h1, st1) \<Rightarrow> (Some out, h1, st1)
           | (None, h1, st1) \<Rightarrow> iterate_hooks hooks h1 st1))"

text \<open>\<^verbatim>\<open>register_get_object_hook\<close> appends to the class-level list.\<close>

definition register_get_object_hook :: "hook \<Rightarrow> hook list \<Rightarrow> hook list" where
  "register_get_object_hook get_object_callable hooks = hooks @ [get_object_callable]"

section \<open>Construction, copying and state restore\<close>

text \<open>
  The \<^verbatim>\<open>id\<close> argument of the constructor is another handle or a plain value
  (\<open>IdVal VNone\<close> is the default \<^verbatim>\<open>None\<close>). \<open>u\<close> is the string \<^verbatim>\<open>str(uuid4())\<close>
  that the call draws when it needs one.
  \<^verbatim>\<open>
  def __init__(self, id=None, prefix="smi:local", referred_object=None, parent=None):
      if id is None:
          self.fixed = False
          self._prefix = prefix
          self._uuid = str(uuid4())
      elif isinstance(id, ResourceIdentifier):
          self.__dict__.update(id.__dict__)
          return
      else:
          self.fixed = True
          self.id = id
      self._resource_key = self.id
      self._parent_key = parent
      if referred_object is not None:
          self.set_referred_object(referred_object)
  \<close>
  The instance has no \<^verbatim>\<open>_resource_key__\<close> when \<^verbatim>\<open>self.id = id\<close> runs, so that
  assignment does not warn; it raises \<^verbatim>\<open>TypeError\<close> for an id that is no string.
\<close>

datatype id_arg = IdHandle handle | IdVal pyval

definition id_value :: "string option \<Rightarrow> pyval" where
  "id_value i = (case i of None \<Rightarrow> VNone | Some s \<Rightarrow> VStr s)"

definition finish_init ::
  "handle \<Rightarrow> pyobject option \<Rightarrow> pyval \<Rightarrow> rstate \<Rightarrow> handle \<times> rstate" where
  "finish_init h0 referred_object parent st =
     (let (h1, st1) = set_resource_key h0 (id_value (get_id h0)) st;
          (h2, st2) = set_parent_key h1 parent st1
      in case referred_object of
           None \<Rightarrow> (h2, st2)
         | Some ob \<Rightarrow> set_referred_object h2 ob True VNone st2)"

definition ResourceIdentifier_init ::
  "id_arg \<Rightarrow> string \<Rightarrow> pyobject option \<Rightarrow> pyval \<Rightarrow> string \<Rightarrow> rstate
     \<Rightarrow> error + (handle \<times> rstate)" where
  "ResourceIdentifier_init id_in prefix referred_object parent u st =
     (case id_in of
        IdHandle other \<Rightarrow> Inr (other, st)
      | IdVal VNone \<Rightarrow>
          Inr (finish_init
                 \<lparr>fixed = False, prefix_str = prefix, uuid_str = u, id_str = None,
                  resource_key = 0, parent_key = None, object_id = None\<rparr>
                 referred_object parent st)
      | IdVal (VStr s) \<Rightarrow>
          Inr (finish_init
                 \<lparr>fixed = True, prefix_str = [], uuid_str = [], id_str = Some s,
                  resource_key = 0, parent_key = None, object_id = None\<rparr>
                 referred_object parent st)
      | IdVal _ \<Rightarrow> Inl TypeError)"

text \<open>
  \<^verbatim>\<open>
  def __deepcopy__(self, memodict={}):
      new = ResourceIdentifier.__new__(ResourceIdentifier)
      new.__dict__.update(self.__dict__)
      # clear object_id upon copying resource_ids
      new._parent_key = None
      memodict[id(self)] = new
      return new
  \<close>
  \<^verbatim>\<open>copy()\<close> is \<^verbatim>\<open>deepcopy(self)\<close>. The assignment to \<^verbatim>\<open>_parent_key\<close> goes through
  the descriptor.
\<close>

definition deepcopy :: "handle \<Rightarrow> rstate \<Rightarrow> handle \<times> rstate" where
  "deepcopy h st = (let new = h in set_parent_key new VNone st)"

definition copy :: "handle \<Rightarrow> rstate \<Rightarrow> handle \<times> rstate" where
  "copy h st = deepcopy h st"

text \<open>
  \<^verbatim>\<open>
  def __setstate__(self, state):
      self.__dict__ = state
      self._parent_key = None
      self._resource_key = _ResourceKey.get_resource_key(self.id)
  \<close>
  \<open>state\<close> is the persisted instance dictionary. Both assignments go through the
  descriptors; the second one hands the descriptor a \<^verbatim>\<open>_ResourceKey\<close> instance.
\<close>

definition raw_of_id :: "string option \<Rightarrow> raw" where
  "raw_of_id i = (case i of None \<Rightarrow> RawNone | Some s \<Rightarrow> RawStr s)"

definition setstate :: "handle \<Rightarrow> rstate \<Rightarrow> handle \<times> rstate" where
  "setstate state st =
     (let (h1, st1) = set_parent_key state VNone st;
          (k, st2) = get_resource_key (raw_of_id (get_id h1)) st1
      in set_resource_key h1 (VObj k) st2)"

section \<open>QuakeML URIs\<close>

text \<open>
  The pattern of \<^verbatim>\<open>get_quakeml_uri_str\<close>,
  \<^verbatim>\<open>^(smi|quakeml):[\w\d][\w\d\-\.\*\(\)_~']{2,}/[\w\d\-\.\*\(\)_~'][\w\d\-\.\*\(\)\+\?_~'=,;#/&]*$\<close>,
  as a recogniser. Strings are ASCII here: \<^verbatim>\<open>\w\<close> is a letter, a digit or the
  underscore. The second class has no slash, so the first segment ends at the first
  slash; \<^verbatim>\<open>$\<close> also matches before a newline that ends the string.
\<close>

definition word_char :: "char \<Rightarrow> bool" where
  "word_char c =
     (c \<in> set (''abcdefghijklmnopqrstuvwxyz'' @ ''ABCDEFGHIJKLMNOPQRSTUVWXYZ'' @
               ''0123456789'' @ ''_''))"

definition segment_char :: "char \<Rightarrow> bool" where
  "segment_char c = (word_char c \<or> c \<in> set (''-.*()_~'' @ [CHR 0x27]))"

definition tail_char :: "char \<Rightarrow> bool" where
  "tail_char c = (word_char c \<or> c \<in> set (''-.*()+?_~'' @ [CHR 0x27] @ ''=,;#/&''))"

definition strip_scheme :: "string \<Rightarrow> string option" where
  "strip_scheme s =
     (if take 4 s = ''smi:'' then Some (drop 4 s)
      else if take 8 s = ''quakeml:'' then Some (drop 8 s)
      else None)"

definition match_end :: "string \<Rightarrow> bool" where
  "match_end t =
     (list_all tail_char t \<or>
      (case rev t of [] \<Rightarrow> False | c # r \<Rightarrow> c = CHR 0x0A \<and> list_all tail_char r))"

definition match_segments :: "string \<Rightarrow> bool" where
  "match_segments r =
     (case takeWhile (\<lambda>c. c \<noteq> CHR ''/'') r of
        [] \<Rightarrow> False
      | c # cs \<Rightarrow>
          word_char c \<and> 2 \<le> length cs \<and> list_all segment_char cs \<and>
          (case dropWhile (\<lambda>c. c \<noteq> CHR ''/'') r of
             [] \<Rightarrow> False
           | slash # t \<Rightarrow>
               (case t of [] \<Rightarrow> False | d # ds \<Rightarrow> segment_char d \<and> match_end ds)))"

definition quakeml_match :: "string \<Rightarrow> bool" where
  "quakeml_match s = (case strip_scheme s of None \<Rightarrow> False | Some r \<Rightarrow> match_segments r)"

text \<open>\<^verbatim>\<open>str(id)\<close> and \<^verbatim>\<open>.strip()\<close> (ASCII white space).\<close>

definition py_str :: "string option \<Rightarrow> string" where
  "py_str i = (case i of None \<Rightarrow> ''None'' | Some s \<Rightarrow> s)"

definition py_isspace :: "char \<Rightarrow> bool" where
  "py_isspace c =
     (c \<in> set [CHR 0x09, CHR 0x0A, CHR 0x0B, CHR 0x0C, CHR 0x0D,
               CHR 0x1C, CHR 0x1D, CHR 0x1E, CHR 0x1F, CHR 0x20])"

definition py_strip :: "string \<Rightarrow> string" where
  "py_strip s = rev (dropWhile py_isspace (rev (dropWhile py_isspace s)))"

text \<open>
  \<^verbatim>\<open>
  def get_quakeml_uri_str(self, authority_id="local"):
      id = self.id
      if str(id).strip() == "":
          id = str(uuid4())
      result = re.match(regex, str(id))
      if result is not None:
          return id
      id = 'smi:%s/%s' % (authority_id, str(id))
      result = re.match(regex, id)
      if result is None:
          raise ValueError(msg)
      return id
  \<close>
  \<open>u\<close> is the token \<^verbatim>\<open>str(uuid4())\<close>. The first \<^verbatim>\<open>return id\<close> returns a string:
  the only id that is no string is \<^verbatim>\<open>None\<close>, and \<^verbatim>\<open>str(None)\<close> does not match. The
  method assigns nothing on \<^verbatim>\<open>self\<close>; the handle is returned beside the result as the
  call leaves it.
\<close>

definition get_quakeml_uri_str ::
  "handle \<Rightarrow> string \<Rightarrow> string \<Rightarrow> (error + string) \<times> handle" where
  "get_quakeml_uri_str h authority_id u =
     (let i = (if py_strip (py_str (get_id h)) = [] then u else py_str (get_id h)) in
      if quakeml_match i then (Inr i, h)
      else
        let i' = ''smi:'' @ authority_id @ ''/'' @ i in
        if quakeml_match i' then (Inr i', h) else (Inl ValueError, h))"

text \<open>
  \<^verbatim>\<open>
  def get_quakeml_id(self, authority_id="local"):
      new_id = self.get_quakeml_uri_str(authority_id=authority_id)
      rid = ResourceIdentifier(new_id)
      referred_obj = self.get_referred_object()
      if referred_obj is not None:
          rid.set_referred_object(referred_obj, warn=False,
                                  parent=self._parent_key)
      return rid
  \<close>
  The result is the new handle, the original handle and the registry after the call.
  \<^verbatim>\<open>self._parent_key\<close> is a \<^verbatim>\<open>_ResourceKey\<close> instance or \<^verbatim>\<open>None\<close>.
\<close>

definition key_value :: "key option \<Rightarrow> pyval" where
  "key_value k = (case k of None \<Rightarrow> VNone | Some a \<Rightarrow> VObj a)"

definition get_quakeml_id ::
  "hook list \<Rightarrow> handle \<Rightarrow> string \<Rightarrow> string \<Rightarrow> rstate
     \<Rightarrow> error + (handle \<times> handle \<times> rstate)" where
  "get_quakeml_id hooks h authority_id u st =
     (case get_quakeml_uri_str h authority_id u of
        (Inl e, h0) \<Rightarrow> Inl e
      | (Inr new_id, h0) \<Rightarrow>
          (case ResourceIdentifier_init (IdVal (VStr new_id)) ''smi:local'' None VNone [] st of
             Inl e \<Rightarrow> Inl e
           | Inr (rid, st1) \<Rightarrow>
               (case get_referred_object hooks h0 st1 of
                  (None, h1, st2) \<Rightarrow> Inr (rid, h1, st2)
                | (Some referred_obj, h1, st2) \<Rightarrow>
                    (let (rid', st3) =
                           set_referred_object rid referred_obj False
                             (key_value (parent_key h1)) st2
                     in Inr (rid', h1, st3)))))"

section \<open>Equality and hash\<close>





section \<open>Handles and the interner\<close>

text \<open>
  A handle with id \<open>s\<close> that holds the key the interner has for \<open>s\<close>. The constructor
  returns such a handle, and it stays one while the key is alive: the interner keeps the
  row of a key as long as a handle holds the key, and never replaces a row.
\<close>

definition holds_interned_key :: "string \<Rightarrow> handle \<Rightarrow> rstate \<Rightarrow> bool" where
  "holds_interned_key s h st =
     (get_id h = Some s \<and> singleton_cache st (RawStr s) = Some (resource_key h))"

section \<open>Sample inputs\<close>


text \<open>A fixed handle with the given id, not bound and without parent.\<close>

definition sample_handle :: "string \<Rightarrow> handle" where
  "sample_handle s =
     \<lparr>fixed = True, prefix_str = [], uuid_str = [], id_str = Some s,
      resource_key = 0, parent_key = None, object_id = None\<rparr>"






section \<open>The operations in the words of the specification\<close>

text \<open>
  The old object of a rebinding as the specification describes it: the object mapped by
  the handle's own composite key or, if that is absent, the most recent live object in
  the assignment order of the handle's resource key.
\<close>

definition most_recent_live :: "handle \<Rightarrow> rstate \<Rightarrow> pyobject option" where
  "most_recent_live h st =
     (case id_order st (resource_key h) of
        None \<Rightarrow> None
      | Some l \<Rightarrow>
          (case filter (\<lambda>ck. id_object_map st ck \<noteq> None) (rev l) of
             [] \<Rightarrow> None
           | ck # rest \<Rightarrow> id_object_map st ck))"

definition spec_old_object :: "handle \<Rightarrow> rstate \<Rightarrow> pyobject option" where
  "spec_old_object h st =
     (case id_object_map st (object_key h) of
        Some ob \<Rightarrow> Some ob
      | None \<Rightarrow> most_recent_live h st)"






section \<open>What a method leaves unchanged on the handle\<close>

lemma get_id_update [simp]:
  "get_id (h\<lparr>object_id := a\<rparr>) = get_id h"
  "get_id (h\<lparr>parent_key := p\<rparr>) = get_id h"
  "get_id (h\<lparr>resource_key := k\<rparr>) = get_id h"
  by (simp_all add: get_id_def)

lemma set_parent_key_frame:
  "set_parent_key h v st = (h', st') \<Longrightarrow>
     fixed h' = fixed h \<and> prefix_str h' = prefix_str h \<and> uuid_str h' = uuid_str h \<and>
     id_str h' = id_str h \<and> resource_key h' = resource_key h \<and> object_id h' = object_id h"
  by (auto simp: set_parent_key_def split: prod.splits option.splits)

lemma set_resource_key_frame:
  "set_resource_key h v st = (h', st') \<Longrightarrow>
     fixed h' = fixed h \<and> prefix_str h' = prefix_str h \<and> uuid_str h' = uuid_str h \<and>
     id_str h' = id_str h \<and> parent_key h' = parent_key h \<and> object_id h' = object_id h"
  by (auto simp: set_resource_key_def split: prod.splits option.splits)

lemma update_parent_tree_frame:
  "update_parent_tree h v st = (h', st') \<Longrightarrow>
     fixed h' = fixed h \<and> prefix_str h' = prefix_str h \<and> uuid_str h' = uuid_str h \<and>
     id_str h' = id_str h \<and> resource_key h' = resource_key h \<and> object_id h' = object_id h"
  by (auto simp: update_parent_tree_def Let_def
           split: prod.splits option.splits if_splits dest: set_parent_key_frame)

lemma set_referred_object_frame:
  "set_referred_object h ob w v st = (h', st') \<Longrightarrow>
     fixed h' = fixed h \<and> prefix_str h' = prefix_str h \<and> uuid_str h' = uuid_str h \<and>
     id_str h' = id_str h \<and> resource_key h' = resource_key h \<and>
     object_id h' = Some (obj_id ob)"
  by (auto simp: set_referred_object_def Let_def split: prod.splits
           dest!: update_parent_tree_frame)

lemma finish_init_frame:
  "finish_init h r p st = (h', st') \<Longrightarrow>
     fixed h' = fixed h \<and> prefix_str h' = prefix_str h \<and> uuid_str h' = uuid_str h \<and>
     id_str h' = id_str h"
  by (auto simp: finish_init_def Let_def split: prod.splits option.splits
           dest!: set_referred_object_frame set_parent_key_frame set_resource_key_frame)


lemma deepcopy_same: "deepcopy h st = (h, st)"
  by (simp add: deepcopy_def set_parent_key_def descriptor_set_def)

section \<open>Copying\<close>

text \<open>
  Claim C5: a copy shares the original's resource key and everything else on the
  handle, and its parent key is cleared. The code assigns \<^verbatim>\<open>None\<close> to
  \<^verbatim>\<open>new._parent_key\<close>, and the descriptor ignores an assignment of \<^verbatim>\<open>None\<close>
  (\<open>deepcopy_same\<close>): the copy of a handle constructed with \<^verbatim>\<open>parent=7\<close> still has
  the parent key of the original.
\<close>

theorem copy_keeps_parent_key:
  "case ResourceIdentifier_init (IdVal (VStr ''ev/1'')) ''smi:local'' None (VInt 7) []
          empty_state of
     Inl e \<Rightarrow> False
   | Inr (h, st) \<Rightarrow>
       parent_key h = Some 1 \<and> parent_key (fst (copy h st)) = Some 1 \<and>
       resource_key (fst (copy h st)) = resource_key h"
  by code_simp

section \<open>State restore\<close>

text \<open>
  Claim C6: after \<^verbatim>\<open>__setstate__\<close> the parent key is absent and the resource key is
  the interned key of the id string, shared with a freshly constructed handle of the
  same id. A handle with id \<^verbatim>\<open>ev/1\<close> and \<^verbatim>\<open>parent=7\<close> is restored from its own
  dictionary; then a fresh handle with the same id is bound to an object. The restored
  handle keeps parent key 1; its resource key is key 2, interned for the integer
  \<^verbatim>\<open>id(key 0)\<close>, where key 0 is the key of the string; it does not resolve to the
  object the fresh handle is bound to.
\<close>

theorem setstate_interns_key_identity:
  "case ResourceIdentifier_init (IdVal (VStr ''ev/1'')) ''smi:local'' None (VInt 7) []
          empty_state of
     Inl e \<Rightarrow> False
   | Inr (orig, st1) \<Rightarrow>
       (case setstate orig st1 of
          (restored, st2) \<Rightarrow>
            (case ResourceIdentifier_init (IdVal (VStr ''ev/1'')) ''smi:local''
                    (Some \<lparr>obj_id = 100, obj_val = 1\<rparr>) VNone [] st2 of
               Inl e \<Rightarrow> False
             | Inr (fresh, st3) \<Rightarrow>
                 parent_key restored = Some 1 \<and>
                 singleton_cache st3 (RawStr ''ev/1'') = Some 0 \<and>
                 resource_key fresh = 0 \<and>
                 singleton_cache st3 (RawInt 0) = Some 2 \<and>
                 resource_key restored = 2 \<and>
                 fst (get_referred_object [] fresh st3) = Some \<lparr>obj_id = 100, obj_val = 1\<rparr> \<and>
                 fst (get_referred_object [] restored st3) = None))"
  by code_simp

section \<open>Conversion to a QuakeML handle\<close>

text \<open>
  Claim C7: \<^verbatim>\<open>get_quakeml_id\<close> builds a handle from the URI string and binds the
  object the original resolves to, without rebinding warning and with the original's
  parent key on the new handle. For a handle with id \<^verbatim>\<open>ev/1\<close>, \<^verbatim>\<open>parent=7\<close> and a
  bound object the new handle has the URI id, the object and no warning, but its parent
  key is key 3, interned for the integer \<^verbatim>\<open>id(key 1)\<close>, not the original's key 1.
\<close>

theorem get_quakeml_id_reinterns_parent:
  "case ResourceIdentifier_init (IdVal (VStr ''ev/1'')) ''smi:local''
          (Some \<lparr>obj_id = 100, obj_val = 1\<rparr>) (VInt 7) [] empty_state of
     Inl e \<Rightarrow> False
   | Inr (orig, st1) \<Rightarrow>
       (case get_quakeml_id [] orig ''local'' [] st1 of
          Inl e \<Rightarrow> False
        | Inr (rid, orig', st2) \<Rightarrow>
            id_str rid = Some ''smi:local/ev/1'' \<and>
            fst (get_referred_object [] rid st2) = Some \<lparr>obj_id = 100, obj_val = 1\<rparr> \<and>
            warnings_log st2 = [] \<and>
            parent_key orig' = Some 1 \<and>
            singleton_cache st2 (RawInt 1) = Some 3 \<and>
            parent_key rid = Some 3)"
  by code_simp

section \<open>Equality and hash\<close>




section \<open>The setter of the id\<close>

text \<open>
  Claim C10: assigning a value that is no string to \<^verbatim>\<open>id\<close> raises \<^verbatim>\<open>TypeError\<close>
  after \<^verbatim>\<open>fixed\<close> has been set, so a handle that was generated from a prefix and a
  token, and reported that pair as its id, reports \<^verbatim>\<open>None\<close> after the failed
  assignment.
\<close>

theorem id_setter_not_atomic:
  assumes "ResourceIdentifier_init (IdVal VNone) prefix referred_object parent u st0 =
             Inr (h, st)"
    and "\<forall>s. v \<noteq> VStr s"
  shows "get_id h = Some ((if endswith_slash prefix then prefix else prefix @ ''/'') @ u) \<and>
         (\<exists>h'. id_setter h v st = (Some TypeError, h', st) \<and> fixed h' \<and>
               get_id h' = None)"
proof -
  from assms(1) obtain h0 where h0:
    "finish_init h0 referred_object parent st0 = (h, st)"
    "fixed h0 = False" "prefix_str h0 = prefix" "uuid_str h0 = u" "id_str h0 = None"
    by (auto simp: ResourceIdentifier_init_def)
  from finish_init_frame [OF h0(1)] h0
  have fr: "\<not> fixed h" "prefix_str h = prefix" "uuid_str h = u" "id_str h = None"
    by simp_all
  have 1: "get_id h = Some ((if endswith_slash prefix then prefix else prefix @ ''/'') @ u)"
    using fr by (simp add: get_id_def)
  have 2: "id_setter h v st = (Some TypeError, h\<lparr>fixed := True\<rparr>, st)"
    using assms(2) by (cases v) (simp_all add: id_setter_def Let_def)
  have 3: "get_id (h\<lparr>fixed := True\<rparr>) = None"
    using fr by (simp add: get_id_def)
  show ?thesis using 1 2 3 by simp
qed

theorem id_setter_not_atomic_witness:
  "case ResourceIdentifier_init (IdVal VNone) ''smi:local'' None VNone ''u1'' empty_state of
     Inl e \<Rightarrow> False
   | Inr (h, st) \<Rightarrow>
       get_id h = Some ''smi:local/u1'' \<and>
       fst (id_setter h (VInt 5) st) = Some TypeError \<and>
       fixed (fst (snd (id_setter h (VInt 5) st))) \<and>
       get_id (fst (snd (id_setter h (VInt 5) st))) = None"
proof -
  obtain h st where a:
    "ResourceIdentifier_init (IdVal VNone) ''smi:local'' None VNone ''u1'' empty_state =
       Inr (h, st)"
    by (simp add: ResourceIdentifier_init_def) (metis surj_pair)
  have b: "\<forall>s. VInt 5 \<noteq> VStr s" by simp
  show ?thesis
    using id_setter_not_atomic [OF a b] a
    by (auto simp: endswith_slash_def)
qed

section \<open>The URI string\<close>

lemma py_strip_Nil: "(py_strip s = []) = (\<forall>c\<in>set s. py_isspace c)"
proof
  assume "py_strip s = []"
  then have "\<forall>c\<in>set (dropWhile py_isspace s). py_isspace c"
    by (simp add: py_strip_def)
  then have "dropWhile py_isspace s = []"
    by (metis hd_dropWhile hd_in_set)
  then show "\<forall>c\<in>set s. py_isspace c"
    by simp
next
  assume "\<forall>c\<in>set s. py_isspace c"
  then show "py_strip s = []"
    by (auto simp: py_strip_def dest: set_dropWhileD)
qed

lemma strip_scheme_head:
  "strip_scheme s = Some r \<Longrightarrow> s \<noteq> [] \<and> (hd s = CHR ''s'' \<or> hd s = CHR ''q'')"
  by (cases s) (auto simp: strip_scheme_def split: if_splits)

lemma scheme_letters_not_space: "\<not> py_isspace (CHR ''s'')" "\<not> py_isspace (CHR ''q'')"
  by (simp_all add: py_isspace_def)

lemma quakeml_match_not_blank: "quakeml_match s \<Longrightarrow> py_strip s \<noteq> []"
proof -
  assume "quakeml_match s"
  then obtain r where "strip_scheme s = Some r"
    by (cases "strip_scheme s") (simp_all add: quakeml_match_def)
  then have h: "s \<noteq> []" "hd s = CHR ''s'' \<or> hd s = CHR ''q''"
    by (simp_all add: strip_scheme_head)
  from h(2) have "\<not> py_isspace (hd s)"
    by (rule disjE) (simp_all add: scheme_letters_not_space)
  moreover from h(1) have "hd s \<in> set s" by simp
  ultimately have "\<exists>c\<in>set s. \<not> py_isspace c" by (rule rev_bexI [rotated])
  then show ?thesis by (simp add: py_strip_Nil)
qed

text \<open>
  Claim C8: \<^verbatim>\<open>get_quakeml_uri_str\<close> leaves the handle as it is; it returns the id
  itself when the id matches the pattern; otherwise the id prefixed with
  \<^verbatim>\<open>smi:authority/\<close> when that matches, and \<^verbatim>\<open>ValueError\<close> when it does not; an id
  that is empty or white space is replaced by the fresh token first; whatever it returns
  matches the pattern, so no segment of it is empty.
\<close>

theorem get_quakeml_uri_str_cases:
  "snd (get_quakeml_uri_str h a u) = h \<and>
   (\<forall>s. get_id h = Some s \<and> quakeml_match s \<longrightarrow> fst (get_quakeml_uri_str h a u) = Inr s) \<and>
   (py_strip (py_str (get_id h)) \<noteq> [] \<and> \<not> quakeml_match (py_str (get_id h)) \<longrightarrow>
      fst (get_quakeml_uri_str h a u) =
        (if quakeml_match (''smi:'' @ a @ ''/'' @ py_str (get_id h))
         then Inr (''smi:'' @ a @ ''/'' @ py_str (get_id h)) else Inl ValueError)) \<and>
   (py_strip (py_str (get_id h)) = [] \<longrightarrow>
      fst (get_quakeml_uri_str h a u) =
        (if quakeml_match u then Inr u
         else if quakeml_match (''smi:'' @ a @ ''/'' @ u) then Inr (''smi:'' @ a @ ''/'' @ u)
         else Inl ValueError)) \<and>
   (\<forall>r. fst (get_quakeml_uri_str h a u) = Inr r \<longrightarrow> quakeml_match r)"
proof -
  have 1: "snd (get_quakeml_uri_str h a u) = h"
    by (simp add: get_quakeml_uri_str_def Let_def)
  have 2: "\<forall>s. get_id h = Some s \<and> quakeml_match s \<longrightarrow>
             fst (get_quakeml_uri_str h a u) = Inr s"
  proof (intro allI impI, elim conjE)
    fix s assume "get_id h = Some s" "quakeml_match s"
    then show "fst (get_quakeml_uri_str h a u) = Inr s"
      using quakeml_match_not_blank [of s]
      by (simp add: get_quakeml_uri_str_def Let_def py_str_def)
  qed
  have 3: "\<forall>r. fst (get_quakeml_uri_str h a u) = Inr r \<longrightarrow> quakeml_match r"
    by (simp add: get_quakeml_uri_str_def Let_def split: if_splits)
  have 4: "py_strip (py_str (get_id h)) \<noteq> [] \<and> \<not> quakeml_match (py_str (get_id h)) \<longrightarrow>
      fst (get_quakeml_uri_str h a u) =
        (if quakeml_match (''smi:'' @ a @ ''/'' @ py_str (get_id h))
         then Inr (''smi:'' @ a @ ''/'' @ py_str (get_id h)) else Inl ValueError)"
    by (simp add: get_quakeml_uri_str_def Let_def)
  have 5: "py_strip (py_str (get_id h)) = [] \<longrightarrow>
      fst (get_quakeml_uri_str h a u) =
        (if quakeml_match u then Inr u
         else if quakeml_match (''smi:'' @ a @ ''/'' @ u) then Inr (''smi:'' @ a @ ''/'' @ u)
         else Inl ValueError)"
    by (simp add: get_quakeml_uri_str_def Let_def)
  show ?thesis
    by (intro conjI) (rule 1, rule 2, rule 4, rule 5, rule 3)
qed

theorem get_quakeml_uri_str_cases_witness:
  "get_quakeml_uri_str (sample_handle ''quakeml:obspy.org/pick/1'') ''local'' ''4f2a''
     = (Inr ''quakeml:obspy.org/pick/1'', sample_handle ''quakeml:obspy.org/pick/1'') \<and>
   get_quakeml_uri_str (sample_handle ''some_id'') ''local'' ''4f2a''
     = (Inr ''smi:local/some_id'', sample_handle ''some_id'') \<and>
   get_quakeml_uri_str (sample_handle ''a:b'') ''local'' ''4f2a''
     = (Inl ValueError, sample_handle ''a:b'') \<and>
   get_quakeml_uri_str (sample_handle '' '') ''local'' ''4f2a''
     = (Inr ''smi:local/4f2a'', sample_handle '' '')"
proof -
  have m: "quakeml_match ''quakeml:obspy.org/pick/1''" "quakeml_match ''smi:local/some_id''"
    "quakeml_match ''smi:local/4f2a''" "\<not> quakeml_match ''some_id''"
    "\<not> quakeml_match ''a:b''" "\<not> quakeml_match ''smi:local/a:b''" "\<not> quakeml_match ''4f2a''"
    by code_simp+
  have s: "py_strip ''some_id'' \<noteq> []" "py_strip ''a:b'' \<noteq> []" "py_strip '' '' = []"
    by code_simp+
  have i: "\<And>x. get_id (sample_handle x) = Some x"
    by (simp add: sample_handle_def get_id_def)
  have a: "get_quakeml_uri_str (sample_handle ''quakeml:obspy.org/pick/1'') ''local'' ''4f2a''
     = (Inr ''quakeml:obspy.org/pick/1'', sample_handle ''quakeml:obspy.org/pick/1'')"
    using get_quakeml_uri_str_cases
            [of "sample_handle ''quakeml:obspy.org/pick/1''" "''local''" "''4f2a''"] m i
    by (simp add: prod_eq_iff)
  have b: "get_quakeml_uri_str (sample_handle ''some_id'') ''local'' ''4f2a''
     = (Inr ''smi:local/some_id'', sample_handle ''some_id'')"
    using get_quakeml_uri_str_cases [of "sample_handle ''some_id''" "''local''" "''4f2a''"] m s i
    by (simp add: prod_eq_iff py_str_def)
  have c: "get_quakeml_uri_str (sample_handle ''a:b'') ''local'' ''4f2a''
     = (Inl ValueError, sample_handle ''a:b'')"
    using get_quakeml_uri_str_cases [of "sample_handle ''a:b''" "''local''" "''4f2a''"] m s i
    by (simp add: prod_eq_iff py_str_def)
  have d: "get_quakeml_uri_str (sample_handle '' '') ''local'' ''4f2a''
     = (Inr ''smi:local/4f2a'', sample_handle '' '')"
    using get_quakeml_uri_str_cases [of "sample_handle '' ''" "''local''" "''4f2a''"] m s i
    by (simp add: prod_eq_iff py_str_def)
  show ?thesis by (intro conjI) (rule a, rule b, rule c, rule d)
qed

section \<open>What binding changes in the registry\<close>

lemma get_resource_key_tables:
  "get_resource_key r st = (k, st') \<Longrightarrow>
     id_order st' = id_order st \<and> id_object_map st' = id_object_map st \<and>
     parent_id_tree st' = parent_id_tree st \<and> warnings_log st' = warnings_log st"
  by (auto simp: get_resource_key_def split: option.splits)

lemma descriptor_set_tables:
  "descriptor_set v st = (k, st') \<Longrightarrow>
     id_order st' = id_order st \<and> id_object_map st' = id_object_map st \<and>
     parent_id_tree st' = parent_id_tree st \<and> warnings_log st' = warnings_log st"
  by (cases v) (auto simp: descriptor_set_def split: prod.splits dest: get_resource_key_tables)

lemma set_parent_key_tables:
  "set_parent_key h v st = (h', st') \<Longrightarrow>
     id_order st' = id_order st \<and> id_object_map st' = id_object_map st \<and>
     parent_id_tree st' = parent_id_tree st \<and> warnings_log st' = warnings_log st"
  by (auto simp: set_parent_key_def split: prod.splits option.splits dest: descriptor_set_tables)

lemma update_parent_tree_tables:
  "update_parent_tree h v st = (h', st') \<Longrightarrow>
     id_order st' = id_order st \<and> id_object_map st' = id_object_map st \<and>
     warnings_log st' = warnings_log st"
  by (auto simp: update_parent_tree_def Let_def
           split: if_splits prod.splits option.splits dest: set_parent_key_tables)


lemma set_referred_object_log:
  "warnings_log (snd (set_referred_object h ob w parent st)) =
     warnings_log (warn_rebinding w h ob st)"
proof -
  obtain h2 st2 where u:
    "update_parent_tree (h\<lparr>object_id := Some (obj_id ob)\<rparr>) parent (warn_rebinding w h ob st)
       = (h2, st2)"
    by (metis surj_pair)
  from update_parent_tree_tables [OF u]
  have "warnings_log st2 = warnings_log (warn_rebinding w h ob st)" by simp
  then show ?thesis
    using u by (simp add: set_referred_object_def Let_def append_id_order_def)
qed

text \<open>
  Claim C3, as the code has it: \<^verbatim>\<open>set_referred_object\<close> logs a rebinding warning
  exactly when \<open>warn\<close> is set and there is an old object that compares unequal to the
  new one, where the old object is the one mapped by the handle's own composite key or,
  if that is absent, the object of the last entry of the assignment order of the
  handle's resource key, when that entry is still live (\<open>old_object\<close>).
\<close>

theorem rebinding_warning_iff:
  "warnings_log (snd (set_referred_object h ob w parent st)) =
     (if w \<and> (\<exists>old. old_object h st = Some old \<and> py_ne old ob)
      then warnings_log st @ [RebindingConflict (get_id h)]
      else warnings_log st)"
  by (simp add: set_referred_object_log warn_rebinding_def warn_def split: option.splits)

theorem rebinding_warning_iff_witness:
  "case ResourceIdentifier_init (IdVal (VStr ''ev/1'')) ''smi:local''
          (Some \<lparr>obj_id = 101, obj_val = 1\<rparr>) VNone [] empty_state of
     Inl e \<Rightarrow> False
   | Inr (a, st1) \<Rightarrow>
       (case ResourceIdentifier_init (IdVal (VStr ''ev/1'')) ''smi:local'' None VNone [] st1 of
          Inl e \<Rightarrow> False
        | Inr (b, st2) \<Rightarrow>
            old_object b st2 = Some \<lparr>obj_id = 101, obj_val = 1\<rparr> \<and>
            warnings_log (snd (set_referred_object b \<lparr>obj_id = 102, obj_val = 2\<rparr> True VNone st2))
              = [RebindingConflict (Some ''ev/1'')] \<and>
            warnings_log (snd (set_referred_object b \<lparr>obj_id = 102, obj_val = 2\<rparr> False VNone st2))
              = [] \<and>
            warnings_log (snd (set_referred_object b \<lparr>obj_id = 104, obj_val = 1\<rparr> True VNone st2))
              = [])"
proof -
  obtain a st1 where a:
    "ResourceIdentifier_init (IdVal (VStr ''ev/1'')) ''smi:local''
       (Some \<lparr>obj_id = 101, obj_val = 1\<rparr>) VNone [] empty_state = Inr (a, st1)"
    by (simp add: ResourceIdentifier_init_def) (metis surj_pair)
  obtain b st2 where b:
    "ResourceIdentifier_init (IdVal (VStr ''ev/1'')) ''smi:local'' None VNone [] st1 = Inr (b, st2)"
    by (simp add: ResourceIdentifier_init_def) (metis surj_pair)
  have e: "case ResourceIdentifier_init (IdVal (VStr ''ev/1'')) ''smi:local''
          (Some \<lparr>obj_id = 101, obj_val = 1\<rparr>) VNone [] empty_state of
     Inl e \<Rightarrow> False
   | Inr (a, st1) \<Rightarrow>
       (case ResourceIdentifier_init (IdVal (VStr ''ev/1'')) ''smi:local'' None VNone [] st1 of
          Inl e \<Rightarrow> False
        | Inr (b, st2) \<Rightarrow>
            old_object b st2 = Some \<lparr>obj_id = 101, obj_val = 1\<rparr> \<and> warnings_log st2 = [] \<and> get_id b = Some ''ev/1'')"
    by code_simp
  from e a b have o: "old_object b st2 = Some \<lparr>obj_id = 101, obj_val = 1\<rparr>" "warnings_log st2 = []" "get_id b = Some ''ev/1''"
    by simp_all
  show ?thesis
    using rebinding_warning_iff [of b "\<lparr>obj_id = 102, obj_val = 2\<rparr>" True VNone st2]
          rebinding_warning_iff [of b "\<lparr>obj_id = 102, obj_val = 2\<rparr>" False VNone st2]
          rebinding_warning_iff [of b "\<lparr>obj_id = 104, obj_val = 1\<rparr>" True VNone st2]
          a b o
    by (simp add: py_ne_def)
qed

text \<open>
  The claim as stated takes the most recent live object of the assignment order. Two
  handles bind two objects to one id, the second object is collected, and a third
  handle binds a third object: the first object is the most recent live one and
  compares unequal, and the code, which reads only the last entry, logs nothing.
\<close>

theorem most_recent_live_counterexample:
  "case ResourceIdentifier_init (IdVal (VStr ''ev/1'')) ''smi:local''
          (Some \<lparr>obj_id = 101, obj_val = 1\<rparr>) VNone [] empty_state of
     Inl e \<Rightarrow> False
   | Inr (a, st1) \<Rightarrow>
       (case ResourceIdentifier_init (IdVal (VStr ''ev/1'')) ''smi:local''
               (Some \<lparr>obj_id = 102, obj_val = 2\<rparr>) VNone [] st1 of
          Inl e \<Rightarrow> False
        | Inr (b, st2) \<Rightarrow>
            (case ResourceIdentifier_init (IdVal (VStr ''ev/1'')) ''smi:local'' None VNone []
                    (gc_object 102 st2) of
               Inl e \<Rightarrow> False
             | Inr (c, st3) \<Rightarrow>
                 spec_old_object c st3 = Some \<lparr>obj_id = 101, obj_val = 1\<rparr> \<and>
                 py_ne \<lparr>obj_id = 101, obj_val = 1\<rparr> \<lparr>obj_id = 103, obj_val = 3\<rparr> \<and>
                 warnings_log st3 = [RebindingConflict (Some ''ev/1'')] \<and>
                 warnings_log
                   (snd (set_referred_object c \<lparr>obj_id = 103, obj_val = 3\<rparr> True VNone st3))
                   = warnings_log st3))"
  by code_simp

section \<open>Resolution through another handle\<close>

declare newest_scan.simps [simp del]









subsection \<open>The interned key of a constructed handle\<close>


lemma get_resource_key_keeps:
  "get_resource_key r st = (k, st') \<Longrightarrow> singleton_cache st r' = Some k' \<Longrightarrow>
     singleton_cache st' r' = Some k'"
  by (auto simp: get_resource_key_def split: option.splits)

lemma descriptor_set_keeps:
  "descriptor_set v st = (k, st') \<Longrightarrow> singleton_cache st r' = Some k' \<Longrightarrow>
     singleton_cache st' r' = Some k'"
  by (cases v) (auto simp: descriptor_set_def split: prod.splits dest: get_resource_key_keeps)

lemma set_parent_key_keeps:
  "set_parent_key h v st = (h', st') \<Longrightarrow> singleton_cache st r' = Some k' \<Longrightarrow>
     singleton_cache st' r' = Some k'"
  by (auto simp: set_parent_key_def split: prod.splits option.splits dest: descriptor_set_keeps)

lemma update_parent_tree_keeps:
  "update_parent_tree h v st = (h', st') \<Longrightarrow> singleton_cache st r' = Some k' \<Longrightarrow>
     singleton_cache st' r' = Some k'"
  by (auto simp: update_parent_tree_def Let_def
           split: if_splits prod.splits option.splits dest: set_parent_key_keeps)

lemma warn_rebinding_cache:
  "singleton_cache (warn_rebinding w h ob st) = singleton_cache st"
  by (simp add: warn_rebinding_def warn_def split: option.splits)

lemma set_referred_object_keeps:
  assumes "set_referred_object h ob w parent st = (h', st')"
    and "singleton_cache st r' = Some k'"
  shows "singleton_cache st' r' = Some k'"
proof -
  obtain h2 st2 where u:
    "update_parent_tree (h\<lparr>object_id := Some (obj_id ob)\<rparr>) parent (warn_rebinding w h ob st)
       = (h2, st2)"
    by (metis surj_pair)
  from update_parent_tree_keeps [OF u] assms(2)
  have "singleton_cache st2 r' = Some k'" by (simp add: warn_rebinding_cache)
  with assms(1) u show ?thesis
    by (auto simp: set_referred_object_def Let_def append_id_order_def)
qed






lemma holds_after_bind:
  "holds_interned_key s h st \<Longrightarrow>
   set_referred_object h' ob w parent st = (h'', st') \<Longrightarrow> holds_interned_key s h st'"
  by (auto simp: holds_interned_key_def dest: set_referred_object_keeps)

lemma holds_bound_handle:
  assumes "holds_interned_key s h st" and "set_referred_object h ob w parent st = (h', st')"
  shows "holds_interned_key s h' st'"
proof -
  from set_referred_object_frame [OF assms(2)]
  have "get_id h' = get_id h" "resource_key h' = resource_key h"
    by (simp_all add: get_id_def)
  with holds_after_bind [OF assms] show ?thesis
    by (simp add: holds_interned_key_def)
qed

lemma holds_after_gc_object:
  "holds_interned_key s h st \<Longrightarrow> holds_interned_key s h (gc_object a st)"
  by (simp add: holds_interned_key_def gc_object_def)

lemma holds_after_gc_key:
  "holds_interned_key s h st \<Longrightarrow> k \<noteq> resource_key h \<Longrightarrow>
     holds_interned_key s h (gc_key k st)"
  by (auto simp: holds_interned_key_def gc_key_def)

lemma get_similar_keeps:
  assumes "get_similar_referred_object h st = (r, h', st')"
    and "singleton_cache st r' = Some k'"
  shows "singleton_cache st' r' = Some k'"
proof -
  obtain obj st2 where n:
    "(case get_object_from_parent_scope h (warn_liveness h st) of
        Some ob \<Rightarrow> (Some ob, warn_liveness h st)
      | None \<Rightarrow> get_newest_object_with_same_resource_id h (warn_liveness h st)) = (obj, st2)"
    by (metis surj_pair)
  have w: "singleton_cache (warn_liveness h st) = singleton_cache st"
    by (simp add: warn_liveness_def warn_def split: option.splits)
  from n w have c: "singleton_cache st2 = singleton_cache st"
    by (auto simp: get_newest_object_with_same_resource_id_def Let_def
             split: option.splits prod.splits)
  show ?thesis
  proof (cases obj)
    case None
    with assms n c show ?thesis
      by (simp add: get_similar_referred_object_def Let_def)
  next
    case (Some ob)
    with assms(1) n have "set_referred_object h ob False VNone st2 = (h', st')"
      by (simp add: get_similar_referred_object_def Let_def)
    from set_referred_object_keeps [OF this] assms(2) c show ?thesis by simp
  qed
qed

lemma holds_after_resolution:
  assumes "holds_interned_key s h st"
    and "get_referred_object [] h' st = (r, h'', st')"
  shows "holds_interned_key s h st'"
proof (cases "id_object_map st (object_key h')")
  case (Some out)
  with assms show ?thesis by (simp add: get_referred_object_def)
next
  case None
  obtain r1 h1 st1 where g: "get_similar_referred_object h' st = (r1, h1, st1)"
    by (metis prod_cases3)
  with None assms(2) have "st' = st1"
    by (cases r1) (simp_all add: get_referred_object_def)
  with get_similar_keeps [OF g] assms(1) show ?thesis
    by (simp add: holds_interned_key_def)
qed

subsection \<open>Resolution right after a bind\<close>





section \<open>Hooks\<close>








section \<open>The order of resolution\<close>








end
